theory Spec2Isabelle
  imports Main
begin

section \<open>Python values, exceptions and strings\<close>

text \<open>
  The module \<^verbatim>\<open>humanize/number.py\<close> is a set of six pure functions from a Python value to
  either a string or the value it was given.  A Python value is modelled by \<open>pyval\<close>:
  \<^verbatim>\<open>None\<close> (standing for every object that is neither a number nor a string), an
  unbounded integer, a float, or a string.  A raised exception is the left summand of the
  result type, so that every \<^verbatim>\<open>try\<close>/\<^verbatim>\<open>except\<close> of the source is a case distinction.

  A \<open>string\<close> is the UTF-8 text of a Python \<^verbatim>\<open>str\<close>; concatenation commutes with the
  encoding, and every character the source inspects (digits, signs, the comma, the
  letter \<^verbatim>\<open>e\<close>) is ASCII.  Digits are the ASCII digits.

  A finite float \<open>Finite s m e\<close> is the IEEE-754 binary64 number \<open>(-1)^s * m * 2^e\<close>, with
  \<open>m < 2^53\<close> and \<open>-1074 \<le> e \<le> 971\<close>; \<open>Infinite s\<close> and \<open>NaN\<close> are the special values.
\<close>

datatype pyexn = TypeError | ValueError | OverflowError | ZeroDivisionError | KeyError

datatype pyfloat = Finite bool nat int | Infinite bool | NaN

datatype pyval = PyNone | PyInt int | PyFloat pyfloat | PyStr string

type_synonym 'a result = "pyexn + 'a"

subsection \<open>Decimal text of integers: \<^verbatim>\<open>str(n)\<close> and \<^verbatim>\<open>"%d" % n\<close>\<close>

definition digit_char :: "nat \<Rightarrow> char" where
  "digit_char d = ''0123456789'' ! d"

fun str_nat :: "nat \<Rightarrow> string" where
  "str_nat n = (if n < 10 then [digit_char n] else str_nat (n div 10) @ [digit_char (n mod 10)])"

declare str_nat.simps [simp del]

definition str_int :: "int \<Rightarrow> string" where
  "str_int i = (if i < 0 then CHR ''-'' # str_nat (nat (- i)) else str_nat (nat i))"

subsection \<open>Parsing integers: \<^verbatim>\<open>int(s)\<close>\<close>

definition is_digit :: "char \<Rightarrow> bool" where
  "is_digit c = (c \<in> set ''0123456789'')"

definition digit_val :: "char \<Rightarrow> nat" where
  "digit_val c = of_char c - 48"

text \<open>Whitespace that \<^verbatim>\<open>int\<close> and \<^verbatim>\<open>float\<close> strip from both ends of a string: the ASCII
  characters for which \<^verbatim>\<open>str.isspace\<close> holds.\<close>

definition is_space :: "char \<Rightarrow> bool" where
  "is_space c = (c \<in> set [CHR 0x09, CHR 0x0A, CHR 0x0B, CHR 0x0C, CHR 0x0D,
                            CHR 0x1C, CHR 0x1D, CHR 0x1E, CHR 0x1F, CHR 0x20])"

definition py_strip :: "string \<Rightarrow> string" where
  "py_strip s = rev (dropWhile is_space (rev (dropWhile is_space s)))"

text \<open>An underscore may stand between two digits, and nowhere else.\<close>

fun underscores_ok :: "char \<Rightarrow> string \<Rightarrow> bool" where
  "underscores_ok prev [] = (prev \<noteq> CHR ''_'')"
| "underscores_ok prev (c # cs) =
     (if c = CHR ''_'' then is_digit prev \<and> underscores_ok c cs
      else if prev = CHR ''_'' \<and> \<not> is_digit c then False
      else underscores_ok c cs)"

definition drop_underscores :: "string \<Rightarrow> string" where
  "drop_underscores s = filter (\<lambda>c. c \<noteq> CHR ''_'') s"

fun nat_of_digits :: "nat \<Rightarrow> string \<Rightarrow> nat" where
  "nat_of_digits acc [] = acc"
| "nat_of_digits acc (c # cs) = nat_of_digits (10 * acc + digit_val c) cs"

definition split_sign :: "string \<Rightarrow> bool \<times> string" where
  "split_sign s =
     (case s of
        [] \<Rightarrow> (False, [])
      | c # r \<Rightarrow> if c = CHR ''-'' then (True, r) else if c = CHR ''+'' then (False, r) else (False, s))"

definition parse_int :: "string \<Rightarrow> int option" where
  "parse_int s =
     (let t = py_strip s;
          (neg, body) = split_sign t
      in if body \<noteq> [] \<and> underscores_ok CHR ''_'' body
            \<and> list_all is_digit (drop_underscores body)
         then Some ((if neg then - 1 else 1) * int (nat_of_digits 0 (drop_underscores body)))
         else None)"

subsection \<open>The built-in \<^verbatim>\<open>int(value)\<close>\<close>

definition trunc_float :: "bool \<Rightarrow> nat \<Rightarrow> int \<Rightarrow> int" where
  "trunc_float s m e =
     (let k = (if 0 \<le> e then int m * 2 ^ nat e else int m div 2 ^ nat (- e))
      in if s then - k else k)"

fun py_int :: "pyval \<Rightarrow> int result" where
  "py_int PyNone = Inl TypeError"
| "py_int (PyInt n) = Inr n"
| "py_int (PyFloat (Finite s m e)) = Inr (trunc_float s m e)"
| "py_int (PyFloat (Infinite s)) = Inl OverflowError"
| "py_int (PyFloat NaN) = Inl ValueError"
| "py_int (PyStr s) = (case parse_int s of None \<Rightarrow> Inl ValueError | Some n \<Rightarrow> Inr n)"

section \<open>Floats: IEEE-754 binary64 with round-to-nearest, ties-to-even\<close>

text \<open>
  The source converts integers and strings to floats, divides and subtracts floats, and
  formats them.  These are operations of the Python run time, not of the module; they are
  modelled exactly, in integer arithmetic.  A positive rational \<open>p / q\<close> is rounded to
  the nearest binary64 number by \<open>round_ratio\<close>; a tie goes to the even significand.
\<close>

fun bit_length :: "nat \<Rightarrow> nat" where
  "bit_length n = (if n = 0 then 0 else Suc (bit_length (n div 2)))"

declare bit_length.simps [simp del]

text \<open>\<open>rne_div p q\<close> is \<open>p / q\<close> rounded to the nearest integer, ties to even.\<close>

definition rne_div :: "nat \<Rightarrow> nat \<Rightarrow> nat" where
  "rne_div p q =
     (let m = p div q; r = p mod q
      in if 2 * r < q then m else if q < 2 * r then m + 1 else if even m then m else m + 1)"

text \<open>\<open>floor_log2 p q\<close> is the integer \<open>k\<close> with \<open>2^k \<le> p / q < 2^(k+1)\<close>, for positive
  \<open>p\<close> and \<open>q\<close>.\<close>

definition floor_log2 :: "nat \<Rightarrow> nat \<Rightarrow> int" where
  "floor_log2 p q =
     (let k = int (bit_length p) - int (bit_length q)
      in if (if 0 \<le> k then q * 2 ^ nat k \<le> p else q \<le> p * 2 ^ nat (- k)) then k else k - 1)"

text \<open>The significand and exponent of the binary64 number nearest to \<open>p / q\<close>;
  \<open>None\<close> when the rounded value is beyond the largest finite float.\<close>

definition round_ratio :: "nat \<Rightarrow> nat \<Rightarrow> (nat \<times> int) option" where
  "round_ratio p q =
     (if p = 0 then Some (0, - 1074)
      else
        let e = max (floor_log2 p q - 52) (- 1074);
            m = (if 0 \<le> e then rne_div p (q * 2 ^ nat e) else rne_div (p * 2 ^ nat (- e)) q);
            m' = (if m = 2 ^ 53 then 2 ^ 52 else m);
            e' = (if m = 2 ^ 53 then e + 1 else e)
        in if 971 < e' then None else Some (m', e'))"

text \<open>The numerator and denominator of \<open>m * 2^e\<close>.\<close>

definition float_num :: "nat \<Rightarrow> int \<Rightarrow> nat" where
  "float_num m e = (if 0 \<le> e then m * 2 ^ nat e else m)"

definition float_den :: "int \<Rightarrow> nat" where
  "float_den e = (if 0 \<le> e then 1 else 2 ^ nat (- e))"

text \<open>\<^verbatim>\<open>float(n)\<close> for an integer \<open>n\<close>: \<^verbatim>\<open>OverflowError\<close> when \<open>n\<close> is too large.\<close>

definition float_of_int :: "int \<Rightarrow> pyfloat result" where
  "float_of_int n =
     (case round_ratio (nat \<bar>n\<bar>) 1 of
        None \<Rightarrow> Inl OverflowError
      | Some (m, e) \<Rightarrow> Inr (Finite (n < 0) m e))"

text \<open>Equality of floats, \<^verbatim>\<open>x == y\<close>: by value; the two zeros are equal and \<open>NaN\<close> equals
  nothing.\<close>

fun float_eq :: "pyfloat \<Rightarrow> pyfloat \<Rightarrow> bool" where
  "float_eq (Finite s1 m1 e1) (Finite s2 m2 e2) =
     ((m1 = 0 \<and> m2 = 0) \<or>
      (s1 = s2 \<and> float_num m1 e1 * float_den e2 = float_num m2 e2 * float_den e1))"
| "float_eq (Infinite s1) (Infinite s2) = (s1 = s2)"
| "float_eq _ _ = False"

text \<open>True division of floats, \<^verbatim>\<open>x / y\<close>.\<close>

fun float_div :: "pyfloat \<Rightarrow> pyfloat \<Rightarrow> pyfloat result" where
  "float_div (Finite s1 m1 e1) (Finite s2 m2 e2) =
     (if m2 = 0 then Inl ZeroDivisionError
      else case round_ratio (float_num m1 e1 * float_den e2) (float_num m2 e2 * float_den e1) of
             None \<Rightarrow> Inr (Infinite (s1 \<noteq> s2))
           | Some (m, e) \<Rightarrow> Inr (Finite (s1 \<noteq> s2) m e))"
| "float_div (Finite s1 m1 e1) (Infinite s2) = Inr (Finite (s1 \<noteq> s2) 0 (- 1074))"
| "float_div (Infinite s1) (Finite s2 m2 e2) =
     (if m2 = 0 then Inl ZeroDivisionError else Inr (Infinite (s1 \<noteq> s2)))"
| "float_div _ _ = Inr NaN"

text \<open>Subtraction of floats, \<^verbatim>\<open>x - y\<close>, for finite operands: the exact difference,
  rounded.  The source subtracts only finite floats.\<close>

fun float_sub :: "pyfloat \<Rightarrow> pyfloat \<Rightarrow> pyfloat" where
  "float_sub (Finite s1 m1 e1) (Finite s2 m2 e2) =
     (let e = min e1 e2;
          k1 = int m1 * 2 ^ nat (e1 - e) * (if s1 then - 1 else 1);
          k2 = int m2 * 2 ^ nat (e2 - e) * (if s2 then - 1 else 1);
          k = k1 - k2
      in if k = 0 then Finite (m1 = 0 \<and> m2 = 0 \<and> s1 \<and> \<not> s2) 0 (- 1074)
         else case round_ratio (float_num (nat \<bar>k\<bar>) e) (float_den e) of
                None \<Rightarrow> Infinite (k < 0)
              | Some (m, e') \<Rightarrow> Finite (k < 0) m e')"
| "float_sub _ _ = NaN"

subsection \<open>Parsing floats: \<^verbatim>\<open>float(s)\<close>\<close>

definition to_lower :: "char \<Rightarrow> char" where
  "to_lower c =
     (case map_of (zip ''ABCDEFGHIJKLMNOPQRSTUVWXYZ'' ''abcdefghijklmnopqrstuvwxyz'') c of
        None \<Rightarrow> c
      | Some d \<Rightarrow> d)"

text \<open>The float nearest to \<open>d * 10^x\<close>; a value too large is an infinity.\<close>

definition float_of_decimal :: "bool \<Rightarrow> nat \<Rightarrow> int \<Rightarrow> pyfloat" where
  "float_of_decimal neg d x =
     (case (if 0 \<le> x then round_ratio (d * 10 ^ nat x) 1 else round_ratio d (10 ^ nat (- x))) of
        None \<Rightarrow> Infinite neg
      | Some (m, e) \<Rightarrow> Finite neg m e)"

text \<open>
  The grammar of \<^verbatim>\<open>float(s)\<close>: surrounding whitespace is stripped; single underscores
  may separate digits; then an optional sign and either \<^verbatim>\<open>inf\<close>, \<^verbatim>\<open>infinity\<close> or \<^verbatim>\<open>nan\<close>
  in any case, or digits with an optional point and an optional exponent, with at least
  one digit before or after the point.
\<close>

definition parse_float :: "string \<Rightarrow> pyfloat option" where
  "parse_float s =
     (let t = py_strip s
      in if \<not> underscores_ok CHR ''x'' t then None
         else
           let (neg, b) = split_sign (drop_underscores t);
               lb = map to_lower b
           in if lb = ''inf'' \<or> lb = ''infinity'' then Some (Infinite neg)
              else if lb = ''nan'' then Some NaN
              else
                let ip = takeWhile is_digit b;
                    r1 = dropWhile is_digit b;
                    has_point = (r1 \<noteq> [] \<and> hd r1 = CHR ''.'');
                    fp = (if has_point then takeWhile is_digit (tl r1) else []);
                    r2 = (if has_point then dropWhile is_digit (tl r1) else r1);
                    d = nat_of_digits 0 (ip @ fp)
                in if ip = [] \<and> fp = [] then None
                   else if r2 = [] then Some (float_of_decimal neg d (- int (length fp)))
                   else if hd r2 = CHR ''e'' \<or> hd r2 = CHR ''E'' then
                     (let (eneg, ed) = split_sign (tl r2)
                      in if ed \<noteq> [] \<and> list_all is_digit ed
                         then Some (float_of_decimal neg d
                                 ((if eneg then - 1 else 1) * int (nat_of_digits 0 ed) - int (length fp)))
                         else None)
                   else None)"

subsection \<open>The built-in \<^verbatim>\<open>float(value)\<close>\<close>

fun py_float :: "pyval \<Rightarrow> pyfloat result" where
  "py_float PyNone = Inl TypeError"
| "py_float (PyInt n) = float_of_int n"
| "py_float (PyFloat x) = Inr x"
| "py_float (PyStr s) = (case parse_float s of None \<Rightarrow> Inl ValueError | Some x \<Rightarrow> Inr x)"

subsection \<open>Formatting floats\<close>

text \<open>\<open>floor_log10 p q\<close> is the integer \<open>k\<close> with \<open>10^k \<le> p / q < 10^(k+1)\<close>, for positive
  \<open>p\<close> and \<open>q\<close>.\<close>

definition floor_log10 :: "nat \<Rightarrow> nat \<Rightarrow> int" where
  "floor_log10 p q =
     (let k = int (length (str_nat p)) - int (length (str_nat q))
      in if (if 0 \<le> k then q * 10 ^ nat k \<le> p else q \<le> p * 10 ^ nat (- k)) then k else k - 1)"

text \<open>\<open>p / q / 10^x\<close> rounded to the nearest integer, ties to even; and rounded down.\<close>

definition rne_scaled :: "nat \<Rightarrow> nat \<Rightarrow> int \<Rightarrow> nat" where
  "rne_scaled p q x = (if 0 \<le> x then rne_div p (q * 10 ^ nat x) else rne_div (p * 10 ^ nat (- x)) q)"

definition floor_scaled :: "nat \<Rightarrow> nat \<Rightarrow> int \<Rightarrow> nat" where
  "floor_scaled p q x = (if 0 \<le> x then p div (q * 10 ^ nat x) else (p * 10 ^ nat (- x)) div q)"

definition zfill :: "nat \<Rightarrow> string \<Rightarrow> string" where
  "zfill w s = replicate (w - length s) CHR ''0'' @ s"

text \<open>The conversion \<^verbatim>\<open>"%.<prec>f" % x\<close>.\<close>

definition fixed_text :: "nat \<Rightarrow> nat \<Rightarrow> nat \<Rightarrow> string" where
  "fixed_text prec p q =
     (let n = rne_div (p * 10 ^ prec) q
      in str_nat (n div 10 ^ prec) @
         (if prec = 0 then [] else CHR ''.'' # zfill prec (str_nat (n mod 10 ^ prec))))"

fun format_f :: "nat \<Rightarrow> pyfloat \<Rightarrow> string" where
  "format_f prec (Finite s m e) =
     (if s then ''-'' else []) @ fixed_text prec (float_num m e) (float_den e)"
| "format_f prec (Infinite s) = (if s then ''-inf'' else ''inf'')"
| "format_f prec NaN = ''nan''"

text \<open>The conversion \<^verbatim>\<open>"{:.<prec>e}".format(x)\<close>: \<open>prec + 1\<close> significant digits, the
  letter \<^verbatim>\<open>e\<close>, the sign of the exponent and at least two exponent digits.\<close>

definition exp_text :: "int \<Rightarrow> string" where
  "exp_text x = (if x < 0 then CHR ''-'' else CHR ''+'') # zfill 2 (str_nat (nat \<bar>x\<bar>))"

definition sci_digits :: "nat \<Rightarrow> nat \<Rightarrow> nat \<Rightarrow> nat \<times> int" where
  "sci_digits prec p q =
     (let x = floor_log10 p q;
          n = rne_scaled p q (x - int prec)
      in if n = 10 ^ (prec + 1) then (10 ^ prec, x + 1) else (n, x))"

definition mantissa_text :: "nat \<Rightarrow> nat \<Rightarrow> string" where
  "mantissa_text prec n =
     (let ds = zfill (prec + 1) (str_nat n)
      in hd ds # (if prec = 0 then [] else CHR ''.'' # tl ds))"

fun format_e :: "nat \<Rightarrow> pyfloat \<Rightarrow> string" where
  "format_e prec (Finite s m e) =
     (let (n, x) = (if m = 0 then (0, 0) else sci_digits prec (float_num m e) (float_den e))
      in (if s then ''-'' else []) @ mantissa_text prec n @ CHR ''e'' # exp_text x)"
| "format_e prec (Infinite s) = (if s then ''-inf'' else ''inf'')"
| "format_e prec NaN = ''nan''"

subsection \<open>\<^verbatim>\<open>str(x)\<close> of a float: the shortest text that reads back as \<open>x\<close>\<close>

definition roundtrips :: "nat \<Rightarrow> int \<Rightarrow> nat \<Rightarrow> int \<Rightarrow> bool" where
  "roundtrips m e c x =
     ((if 0 \<le> x then round_ratio (c * 10 ^ nat x) 1 else round_ratio c (10 ^ nat (- x))) = Some (m, e))"

text \<open>
  \<open>shortest_digits m e k\<close> tries \<open>k\<close>, \<open>k + 1\<close>, \dots, 17 significant digits: of the two
  \<open>k\<close>-digit decimals around \<open>m * 2^e\<close> it takes the one that rounds back to \<open>m * 2^e\<close> (the
  nearer one when both do).  Seventeen digits always suffice.  The result is the digits as a
  number and the power of ten that scales them.
\<close>

function shortest_digits :: "nat \<Rightarrow> int \<Rightarrow> nat \<Rightarrow> nat \<times> int" where
  "shortest_digits m e k =
     (let p = float_num m e; q = float_den e;
          x = floor_log10 p q - int k + 1;
          lo = floor_scaled p q x;
          near = rne_scaled p q x
      in if 17 \<le> k then (near, x)
         else if roundtrips m e near x then (near, x)
         else if roundtrips m e lo x then (lo, x)
         else if roundtrips m e (lo + 1) x then (lo + 1, x)
         else shortest_digits m e (k + 1))"
  by pat_completeness auto
termination
  by (relation "measure (\<lambda>(m, e, k). 17 - k)") auto

declare shortest_digits.simps [simp del]

definition strip_zeros :: "string \<Rightarrow> string" where
  "strip_zeros ds = rev (dropWhile (\<lambda>c. c = CHR ''0'') (rev ds))"

definition repr_text :: "nat \<Rightarrow> int \<Rightarrow> string" where
  "repr_text c x =
     (let ds = strip_zeros (str_nat c);
          decpt = int (length (str_nat c)) + x
      in if - 4 < decpt \<and> decpt \<le> 16 then
           (if decpt \<le> 0 then ''0.'' @ replicate (nat (- decpt)) CHR ''0'' @ ds
            else if int (length ds) \<le> decpt
              then ds @ replicate (nat decpt - length ds) CHR ''0'' @ ''.0''
            else take (nat decpt) ds @ CHR ''.'' # drop (nat decpt) ds)
         else hd ds # (if 1 < length ds then CHR ''.'' # tl ds else []) @ CHR ''e'' # exp_text (decpt - 1))"

fun float_repr :: "pyfloat \<Rightarrow> string" where
  "float_repr (Finite s m e) =
     (if s then ''-'' else []) @
     (if m = 0 then ''0.0'' else (case shortest_digits m e 1 of (c, x) \<Rightarrow> repr_text c x))"
| "float_repr (Infinite s) = (if s then ''-inf'' else ''inf'')"
| "float_repr NaN = ''nan''"

subsection \<open>The built-in \<^verbatim>\<open>str(value)\<close>\<close>

fun py_str :: "pyval \<Rightarrow> string" where
  "py_str PyNone = ''None''"
| "py_str (PyInt n) = str_int n"
| "py_str (PyFloat x) = float_repr x"
| "py_str (PyStr s) = s"

section \<open>The translator\<close>

text \<open>
  The functions \<^verbatim>\<open>gettext\<close>, \<^verbatim>\<open>pgettext\<close> and \<^verbatim>\<open>gettext_noop\<close> are imported from the
  module \<^verbatim>\<open>humanize.i18n\<close>.  The first two look a message up in the active locale and
  are parameters of the model; \<open>untranslated\<close> is the translator of the default locale,
  which returns every message as it is.
\<close>

record translator =
  gettext :: "string \<Rightarrow> string"
  pgettext :: "string \<Rightarrow> string \<Rightarrow> string"

definition untranslated :: translator where
  "untranslated = \<lparr> gettext = (\<lambda>msg. msg), pgettext = (\<lambda>ctx msg. msg) \<rparr>"

text \<open>Modelled from the spec: \<^verbatim>\<open>gettext_noop\<close> of \<^verbatim>\<open>humanize.i18n\<close>, which marks a message
  for extraction and returns it unchanged.\<close>

definition gettext_noop :: "string \<Rightarrow> string" where
  "gettext_noop msg = msg"

section \<open>\<^verbatim>\<open>ordinal\<close>\<close>

definition ordinal :: "translator \<Rightarrow> pyval \<Rightarrow> pyval result" where
  "ordinal tr value =
     (case py_int value of
        Inl err \<Rightarrow> if err = TypeError \<or> err = ValueError then Inr value else Inl err
      | Inr v \<Rightarrow>
          let t = [pgettext tr ''0'' ''th'', pgettext tr ''1'' ''st'', pgettext tr ''2'' ''nd'',
                   pgettext tr ''3'' ''rd'', pgettext tr ''4'' ''th'', pgettext tr ''5'' ''th'',
                   pgettext tr ''6'' ''th'', pgettext tr ''7'' ''th'', pgettext tr ''8'' ''th'',
                   pgettext tr ''9'' ''th'']
          in if v mod 100 \<in> {11, 12, 13} then Inr (PyStr (str_int v @ t ! 0))
             else Inr (PyStr (str_int v @ t ! nat (v mod 10))))"

text \<open>The suffix table as the specification words it: the last digit selects the suffix.\<close>

definition suffix_table :: "int \<Rightarrow> string" where
  "suffix_table d = (if d = 1 then ''st'' else if d = 2 then ''nd'' else if d = 3 then ''rd'' else ''th'')"

section \<open>\<^verbatim>\<open>apnumber\<close>\<close>

definition apnumber :: "translator \<Rightarrow> pyval \<Rightarrow> pyval result" where
  "apnumber tr value =
     (case py_int value of
        Inl err \<Rightarrow> if err = TypeError \<or> err = ValueError then Inr value else Inl err
      | Inr v \<Rightarrow>
          if \<not> (0 < v \<and> v < 10) then Inr (PyStr (str_int v))
          else Inr (PyStr ([gettext tr ''one'', gettext tr ''two'', gettext tr ''three'',
                            gettext tr ''four'', gettext tr ''five'', gettext tr ''six'',
                            gettext tr ''seven'', gettext tr ''eight'', gettext tr ''nine'']
                           ! nat (v - 1))))"

text \<open>The English words of the digits 1 to 9, as the specification lists them.\<close>

definition digit_word :: "int \<Rightarrow> string" where
  "digit_word n =
     (if n = 1 then ''one'' else if n = 2 then ''two'' else if n = 3 then ''three''
      else if n = 4 then ''four'' else if n = 5 then ''five'' else if n = 6 then ''six''
      else if n = 7 then ''seven'' else if n = 8 then ''eight'' else ''nine'')"

section \<open>\<^verbatim>\<open>intcomma\<close>\<close>

text \<open>
  One application of \<^verbatim>\<open>re.sub(r"^(-?\d+)(\d{3})", r"\g<1>,\g<2>", orig)\<close>.  The pattern is
  anchored at the start of the text, so it matches at most once; it matches when, after an
  optional minus sign, the text starts with a run of at least four digits.  The first
  group is greedy and gives back three digits to the second, so the comma goes before the
  last three digits of that run.
\<close>

definition leading_run :: "string \<Rightarrow> string" where
  "leading_run s = takeWhile is_digit (if s \<noteq> [] \<and> hd s = CHR ''-'' then tl s else s)"

definition comma_step :: "string \<Rightarrow> string" where
  "comma_step orig =
     (let sign = (if orig \<noteq> [] \<and> hd orig = CHR ''-'' then ''-'' else []);
          body = (if orig \<noteq> [] \<and> hd orig = CHR ''-'' then tl orig else orig);
          run = takeWhile is_digit body;
          rest = dropWhile is_digit body
      in if 4 \<le> length run
         then sign @ take (length run - 3) run @ CHR '','' # drop (length run - 3) run @ rest
         else orig)"

text \<open>The validation at the head of \<^verbatim>\<open>intcomma\<close>: \<^verbatim>\<open>float(value.replace(",", ""))\<close> for a
  string, \<^verbatim>\<open>float(value)\<close> otherwise.\<close>

definition intcomma_check :: "pyval \<Rightarrow> pyfloat result" where
  "intcomma_check value =
     (case value of
        PyStr s \<Rightarrow> py_float (PyStr (filter (\<lambda>c. c \<noteq> CHR '','') s))
      | _ \<Rightarrow> py_float value)"

lemma is_digit_comma [simp]: "\<not> is_digit CHR '',''"
  by (simp add: is_digit_def)

lemma is_digit_minus [simp]: "\<not> is_digit CHR ''-''"
  by (simp add: is_digit_def)

lemma takeWhile_digits_comma:
  "list_all is_digit ds \<Longrightarrow> takeWhile is_digit (ds @ CHR '','' # r) = ds"
  by (induction ds) simp_all

lemma comma_step_run:
  assumes "comma_step s \<noteq> s"
  shows "length (leading_run (comma_step s)) < length (leading_run s)"
proof -
  define body where "body = (if s \<noteq> [] \<and> hd s = CHR ''-'' then tl s else s)"
  define run where "run = takeWhile is_digit body"
  define rest where "rest = dropWhile is_digit body"
  define front where "front = take (length run - 3) run"
  have long: "4 \<le> length run"
    using assms by (auto simp: comma_step_def Let_def body_def run_def split: if_splits)
  have digits: "list_all is_digit front"
    unfolding front_def run_def list_all_iff by (auto dest!: in_set_takeD set_takeWhileD)
  have front_ne: "front \<noteq> []"
    using long by (cases run) (simp_all add: front_def)
  then have hd_front: "hd front \<noteq> CHR ''-''"
    using digits by (cases front) auto
  have step: "comma_step s =
      (if s \<noteq> [] \<and> hd s = CHR ''-'' then ''-'' else []) @ front @ CHR '','' # drop (length run - 3) run @ rest"
    using long by (simp add: comma_step_def Let_def body_def run_def rest_def front_def)
  have "leading_run (comma_step s) = front"
    using front_ne hd_front digits
    by (cases front) (auto simp: step leading_run_def takeWhile_digits_comma)
  moreover have "leading_run s = run"
    by (simp add: leading_run_def run_def body_def)
  ultimately show ?thesis
    using long by (simp add: front_def)
qed

function intcomma :: "pyval \<Rightarrow> pyval result" where
  "intcomma value =
     (case intcomma_check value of
        Inl err \<Rightarrow> if err = TypeError \<or> err = ValueError then Inr value else Inl err
      | Inr x \<Rightarrow>
          let orig = py_str value;
              new = comma_step orig
          in if orig = new then Inr (PyStr new) else intcomma (PyStr new))"
  by pat_completeness auto
termination
  by (relation "measure (\<lambda>v. length (leading_run (py_str v)))") (auto dest: comma_step_run [OF not_sym])

declare intcomma.simps [simp del]

section \<open>\<^verbatim>\<open>intword\<close>\<close>

definition powers :: "int list" where
  "powers = map (\<lambda>x. 10 ^ x) [6, 9, 12, 15, 18, 21, 24, 27, 30, 33, 100]"

definition human_powers :: "string list" where
  "human_powers =
     map gettext_noop
       [''million'', ''billion'', ''trillion'', ''quadrillion'', ''quintillion'', ''sextillion'',
        ''septillion'', ''octillion'', ''nonillion'', ''decillion'', ''googol'']"

text \<open>\<^verbatim>\<open>value / float(power)\<close>: true division of an integer by the float of an integer.\<close>

definition int_over_float :: "int \<Rightarrow> int \<Rightarrow> pyfloat result" where
  "int_over_float v p =
     (case float_of_int p of
        Inl err \<Rightarrow> Inl err
      | Inr y \<Rightarrow> (case float_of_int v of Inl err \<Rightarrow> Inl err | Inr x \<Rightarrow> float_div x y))"

text \<open>\<^verbatim>\<open>float(format % chopped) == float(10 ** 3)\<close>.\<close>

definition rounds_to_thousand :: "nat \<Rightarrow> pyfloat \<Rightarrow> bool result" where
  "rounds_to_thousand prec chopped =
     (case py_float (PyStr (format_f prec chopped)) of
        Inl err \<Rightarrow> Inl err
      | Inr x \<Rightarrow> (case float_of_int (10 ^ 3) of Inl err \<Rightarrow> Inl err | Inr y \<Rightarrow> Inr (float_eq x y)))"

text \<open>
  The parameter \<^verbatim>\<open>format\<close> is a printf conversion for the mantissa.  The model covers
  the conversions \<^verbatim>\<open>"%.<prec>f"\<close>, given by their precision; the default \<^verbatim>\<open>"%.1f"\<close> is
  \<open>prec = 1\<close>.  The loop \<^verbatim>\<open>for ordinal, power in enumerate(powers[1:], 1)\<close> is a recursion
  over the indices it visits; its variable \<^verbatim>\<open>ordinal\<close> is \<open>ordinal_idx\<close> here.
\<close>

fun intword_loop :: "translator \<Rightarrow> nat \<Rightarrow> int \<Rightarrow> nat list \<Rightarrow> pyval result" where
  "intword_loop tr prec v [] = Inr (PyStr (str_int v))"
| "intword_loop tr prec v (ordinal_idx # rest) =
     (if v < powers ! ordinal_idx then
        (case int_over_float v (powers ! (ordinal_idx - 1)) of
           Inl err \<Rightarrow> Inl err
         | Inr chopped \<Rightarrow>
             (case rounds_to_thousand prec chopped of
                Inl err \<Rightarrow> Inl err
              | Inr True \<Rightarrow>
                  (case int_over_float v (powers ! ordinal_idx) of
                     Inl err \<Rightarrow> Inl err
                   | Inr chopped' \<Rightarrow>
                       Inr (PyStr (format_f prec chopped' @ '' '' @ gettext tr (human_powers ! ordinal_idx))))
              | Inr False \<Rightarrow>
                  Inr (PyStr (format_f prec chopped @ '' '' @ gettext tr (human_powers ! (ordinal_idx - 1))))))
      else intword_loop tr prec v rest)"

definition intword :: "translator \<Rightarrow> pyval \<Rightarrow> nat \<Rightarrow> pyval result" where
  "intword tr value prec =
     (case py_int value of
        Inl err \<Rightarrow> if err = TypeError \<or> err = ValueError then Inr value else Inl err
      | Inr v \<Rightarrow>
          if v < powers ! 0 then Inr (PyStr (str_int v))
          else intword_loop tr prec v [1, 2, 3, 4, 5, 6, 7, 8, 9, 10])"

section \<open>\<^verbatim>\<open>fractional\<close>\<close>

text \<open>
  Fractions of the standard library: a pair of a numerator and a positive denominator in
  lowest terms.  \<open>mk_fraction\<close> is the constructor \<^verbatim>\<open>Fraction(n, d)\<close>, \<open>fraction_of_float\<close>
  is \<^verbatim>\<open>Fraction(x)\<close> for a float, and \<open>limit_denominator\<close> is the method of that name.
\<close>

definition mk_fraction :: "int \<Rightarrow> int \<Rightarrow> (int \<times> int) result" where
  "mk_fraction n d =
     (if d = 0 then Inl ZeroDivisionError
      else let g = (if d < 0 then - gcd n d else gcd n d) in Inr (n div g, d div g))"

fun fraction_of_float :: "pyfloat \<Rightarrow> (int \<times> int) result" where
  "fraction_of_float (Finite s m e) =
     mk_fraction ((if s then - 1 else 1) * int (float_num m e)) (int (float_den e))"
| "fraction_of_float (Infinite s) = Inl OverflowError"
| "fraction_of_float NaN = Inl ValueError"

text \<open>The loop of \<^verbatim>\<open>limit_denominator\<close>: the convergents \<open>p0 / q0\<close> and \<open>p1 / q1\<close> of the
  continued fraction of \<open>n / d\<close>, until the next denominator exceeds the bound.\<close>

function convergents :: "int \<Rightarrow> int \<Rightarrow> int \<Rightarrow> int \<Rightarrow> int \<Rightarrow> int \<Rightarrow> int \<Rightarrow> (int \<times> int \<times> int \<times> int) result"
  where
  "convergents mx p0 q0 p1 q1 n d =
     (if d = 0 then Inl ZeroDivisionError
      else if mx < q0 + (n div d) * q1 then Inr (p0, q0, p1, q1)
      else convergents mx p1 q1 (p0 + (n div d) * p1) (q0 + (n div d) * q1) d (n - (n div d) * d))"
  by pat_completeness auto
termination
  by (relation "measure (\<lambda>(mx, p0, q0, p1, q1, n, d). nat \<bar>d\<bar>)")
     (auto simp: minus_div_mult_eq_mod abs_mod_less)

declare convergents.simps [simp del]

text \<open>\<^verbatim>\<open>abs(a - x) <= abs(b - x)\<close> for fractions with positive denominators.\<close>

definition nearer_eq :: "int \<times> int \<Rightarrow> int \<times> int \<Rightarrow> int \<times> int \<Rightarrow> bool" where
  "nearer_eq a b x =
     (\<bar>fst a * snd x - fst x * snd a\<bar> * snd b \<le> \<bar>fst b * snd x - fst x * snd b\<bar> * snd a)"

definition limit_denominator :: "int \<Rightarrow> int \<times> int \<Rightarrow> (int \<times> int) result" where
  "limit_denominator mx x =
     (if snd x \<le> mx then Inr x
      else case convergents mx 0 1 1 0 (fst x) (snd x) of
        Inl err \<Rightarrow> Inl err
      | Inr (p0, q0, p1, q1) \<Rightarrow>
          if q1 = 0 then Inl ZeroDivisionError
          else let k = (mx - q0) div q1 in
            (case mk_fraction (p0 + k * p1) (q0 + k * q1) of
               Inl err \<Rightarrow> Inl err
             | Inr bound1 \<Rightarrow>
                 (case mk_fraction p1 q1 of
                    Inl err \<Rightarrow> Inl err
                  | Inr bound2 \<Rightarrow> if nearer_eq bound2 bound1 x then Inr bound2 else Inr bound1)))"

text \<open>\<^verbatim>\<open>"%.0f" % k\<close> and \<^verbatim>\<open>"{:.0f}".format(k)\<close> for an integer \<open>k\<close>: the integer is converted
  to a float and the float is formatted.\<close>

definition format_int_f0 :: "int \<Rightarrow> string result" where
  "format_int_f0 k = (case float_of_int k of Inl err \<Rightarrow> Inl err | Inr x \<Rightarrow> Inr (format_f 0 x))"

definition fractional_text :: "int \<Rightarrow> int \<Rightarrow> int \<Rightarrow> string result" where
  "fractional_text whole_number numerator denominator =
     (case format_int_f0 whole_number of
        Inl err \<Rightarrow> Inl err
      | Inr w \<Rightarrow>
          (case format_int_f0 numerator of
             Inl err \<Rightarrow> Inl err
           | Inr n \<Rightarrow>
               (case format_int_f0 denominator of
                  Inl err \<Rightarrow> Inl err
                | Inr d \<Rightarrow>
                    if whole_number \<noteq> 0 \<and> numerator = 0 \<and> denominator = 1 then Inr w
                    else if whole_number = 0 then Inr (n @ ''/'' @ d)
                    else Inr (w @ '' '' @ n @ ''/'' @ d))))"

definition fractional :: "pyval \<Rightarrow> pyval result" where
  "fractional value =
     (case py_float value of
        Inl err \<Rightarrow> if err = TypeError \<or> err = ValueError then Inr value else Inl err
      | Inr number \<Rightarrow>
          (case py_int (PyFloat number) of
             Inl err \<Rightarrow> Inl err
           | Inr whole_number \<Rightarrow>
               (case float_of_int whole_number of
                  Inl err \<Rightarrow> Inl err
                | Inr w \<Rightarrow>
                    (case fraction_of_float (float_sub number w) of
                       Inl err \<Rightarrow> Inl err
                     | Inr x \<Rightarrow>
                         (case limit_denominator 1000 x of
                            Inl err \<Rightarrow> Inl err
                          | Inr frac \<Rightarrow>
                              (case fractional_text whole_number (fst frac) (snd frac) of
                                 Inl err \<Rightarrow> Inl err
                               | Inr s \<Rightarrow> Inr (PyStr s)))))))"

section \<open>\<^verbatim>\<open>scientific\<close>\<close>

text \<open>The superscript glyphs, in UTF-8.\<close>

definition exponents :: "char \<rightharpoonup> string" where
  "exponents =
     map_of
       [(CHR ''0'', [CHR 0xE2, CHR 0x81, CHR 0xB0]),
        (CHR ''1'', [CHR 0xC2, CHR 0xB9]),
        (CHR ''2'', [CHR 0xC2, CHR 0xB2]),
        (CHR ''3'', [CHR 0xC2, CHR 0xB3]),
        (CHR ''4'', [CHR 0xE2, CHR 0x81, CHR 0xB4]),
        (CHR ''5'', [CHR 0xE2, CHR 0x81, CHR 0xB5]),
        (CHR ''6'', [CHR 0xE2, CHR 0x81, CHR 0xB6]),
        (CHR ''7'', [CHR 0xE2, CHR 0x81, CHR 0xB7]),
        (CHR ''8'', [CHR 0xE2, CHR 0x81, CHR 0xB8]),
        (CHR ''9'', [CHR 0xE2, CHR 0x81, CHR 0xB9]),
        (CHR ''+'', [CHR 0xE2, CHR 0x81, CHR 0xBA]),
        (CHR ''-'', [CHR 0xE2, CHR 0x81, CHR 0xBB])]"

text \<open>\<^verbatim>\<open>old in s\<close> and \<^verbatim>\<open>s.replace(old, new)\<close> for a non-empty \<open>old\<close>.\<close>

fun py_contains :: "string \<Rightarrow> string \<Rightarrow> bool" where
  "py_contains old [] = (old = [])"
| "py_contains old (c # cs) = (take (length old) (c # cs) = old \<or> py_contains old cs)"

function py_replace :: "string \<Rightarrow> string \<Rightarrow> string \<Rightarrow> string" where
  "py_replace old new [] = []"
| "py_replace old new (c # cs) =
     (if old \<noteq> [] \<and> take (length old) (c # cs) = old
      then new @ py_replace old new (drop (length old) (c # cs))
      else c # py_replace old new cs)"
  by pat_completeness auto
termination
  by (relation "measure (\<lambda>(old, new, s). length s)") (auto simp: neq_Nil_conv)

text \<open>The body of the \<^verbatim>\<open>try\<close> block: \<open>Inr (value', negative, n)\<close> when it completes, and
  \<open>Inl (value', err)\<close> when it raises \<open>err\<close>, with the value the variable \<^verbatim>\<open>value\<close> holds at
  that point.\<close>

definition scientific_try :: "pyval \<Rightarrow> nat \<Rightarrow> (pyval \<times> pyexn) + (bool \<times> string)" where
  "scientific_try value precision =
     (let negative = py_contains ''-'' (py_str value);
          value1 = (if negative then PyStr (py_replace ''-'' [] (py_str value)) else value)
      in case value1 of
           PyStr s \<Rightarrow>
             (case parse_float s of
                None \<Rightarrow> Inl (value1, ValueError)
              | Some x \<Rightarrow> Inr (negative, format_e precision x))
         | PyFloat x \<Rightarrow> Inr (negative, format_e precision x)
         | PyInt k \<Rightarrow>
             (case float_of_int k of
                Inl err \<Rightarrow> Inl (value1, err)
              | Inr x \<Rightarrow> Inr (negative, format_e precision x))
         | PyNone \<Rightarrow> Inl (value1, TypeError))"

text \<open>The loop \<^verbatim>\<open>for char in part2: new_part2.append(exponents[char])\<close>.\<close>

fun superscript :: "string \<Rightarrow> string result" where
  "superscript [] = Inr []"
| "superscript (c # cs) =
     (case exponents c of
        None \<Rightarrow> Inl KeyError
      | Some g \<Rightarrow> (case superscript cs of Inl err \<Rightarrow> Inl err | Inr gs \<Rightarrow> Inr (g @ gs)))"

definition scientific_render :: "bool \<Rightarrow> string \<Rightarrow> pyval result" where
  "scientific_render negative n =
     (if CHR ''e'' \<notin> set n \<or> CHR ''e'' \<in> set (tl (dropWhile (\<lambda>c. c \<noteq> CHR ''e'') n))
      then Inl ValueError
      else
        let part1 = takeWhile (\<lambda>c. c \<noteq> CHR ''e'') n;
            part2 = tl (dropWhile (\<lambda>c. c \<noteq> CHR ''e'') n);
            part2a = (if py_contains ''-0'' part2 then py_replace ''-0'' ''-'' part2 else part2);
            part2b = (if py_contains ''+0'' part2a then py_replace ''+0'' [] part2a else part2a)
        in case superscript part2b of
             Inl err \<Rightarrow> Inl err
           | Inr glyphs \<Rightarrow>
               Inr (PyStr (part1 @ '' x 10'' @ (if negative then the (exponents CHR ''-'') else []) @ glyphs)))"

definition scientific :: "pyval \<Rightarrow> nat \<Rightarrow> pyval result" where
  "scientific value precision =
     (case scientific_try value precision of
        Inl (value1, err) \<Rightarrow> if err = ValueError \<or> err = TypeError then Inr value1 else Inl err
      | Inr (negative, n) \<Rightarrow> scientific_render negative n)"

section \<open>Reference definitions from the specification\<close>

text \<open>A comma every three digits, counted from the right, in a run of digits.\<close>

function group_thousands :: "string \<Rightarrow> string" where
  "group_thousands ds =
     (if length ds \<le> 3 then ds
      else group_thousands (take (length ds - 3) ds) @ CHR '','' # drop (length ds - 3) ds)"
  by pat_completeness auto
termination
  by (relation "measure length") auto

declare group_thousands.simps [simp del]

section \<open>Evaluation\<close>

text \<open>The equations that evaluate the model on a concrete input.\<close>

lemmas round_eval =
  round_ratio_def floor_log2_def bit_length.simps rne_div_def Let_def float_num_def float_den_def
  float_of_int_def

lemmas parse_eval =
  parse_float_def parse_int_def py_strip_def is_space_def split_sign_def drop_underscores_def
  is_digit_def to_lower_def float_of_decimal_def digit_val_def

lemmas text_eval = str_int_def str_nat.simps digit_char_def

lemmas format_eval =
  fixed_text_def zfill_def floor_log10_def rne_scaled_def floor_scaled_def exp_text_def
  sci_digits_def mantissa_text_def

lemmas repr_eval = shortest_digits.simps roundtrips_def repr_text_def strip_zeros_def

section \<open>Properties of \<^verbatim>\<open>ordinal\<close>\<close>

lemma mod10_cases:
  fixes n :: int
  shows "n mod 10 = 0 \<or> n mod 10 = 1 \<or> n mod 10 = 2 \<or> n mod 10 = 3 \<or> n mod 10 = 4
      \<or> n mod 10 = 5 \<or> n mod 10 = 6 \<or> n mod 10 = 7 \<or> n mod 10 = 8 \<or> n mod 10 = 9"
  by presburger

lemma ordinal_int_pgettext:
  "ordinal tr (PyInt n) =
     Inr (PyStr (str_int n @
       (if n mod 100 \<in> {11, 12, 13} then pgettext tr ''0'' ''th''
        else pgettext tr (str_int (n mod 10)) (suffix_table (n mod 10)))))"
  using mod10_cases [of n]
  by (elim disjE)
     (simp_all add: ordinal_def suffix_table_def str_int_def str_nat.simps digit_char_def)

text \<open>
  Claim C4.  For every integer \<open>n\<close>, negative ones included (\<open>mod\<close> on \<open>int\<close> has the sign
  of the divisor, as Python's \<^verbatim>\<open>%\<close>), \<open>ordinal n\<close> is the decimal text of \<open>n\<close> followed by
  \<^verbatim>\<open>th\<close> when \<open>n mod 100\<close> is 11, 12 or 13, and otherwise by the suffix the table gives for
  \<open>n mod 10\<close>.  Under a translator the suffix is the translator's rendering of that table
  entry, looked up with the digit as its context; in the default locale it is the entry.
\<close>

theorem ordinal_suffix_rule:
  "ordinal untranslated (PyInt n) =
     Inr (PyStr (str_int n @
       (if n mod 100 = 11 \<or> n mod 100 = 12 \<or> n mod 100 = 13 then ''th''
        else suffix_table (n mod 10))))
   \<and> ordinal tr (PyInt n) =
     Inr (PyStr (str_int n @
       (if n mod 100 = 11 \<or> n mod 100 = 12 \<or> n mod 100 = 13 then pgettext tr ''0'' ''th''
        else pgettext tr (str_int (n mod 10)) (suffix_table (n mod 10)))))"
  by (simp add: ordinal_int_pgettext untranslated_def)

theorem ordinal_suffix_rule_witness:
  "ordinal untranslated (PyInt (-89)) = Inr (PyStr ''-89th'')
   \<and> ordinal untranslated (PyInt 112) = Inr (PyStr ''112th'')
   \<and> ordinal untranslated (PyInt 23) = Inr (PyStr ''23rd'')"
  using ordinal_suffix_rule [of "-89" untranslated] ordinal_suffix_rule [of 112 untranslated]
    ordinal_suffix_rule [of 23 untranslated]
  by (simp add: suffix_table_def str_int_def str_nat.simps digit_char_def)

section \<open>Properties of \<^verbatim>\<open>apnumber\<close>\<close>

text \<open>
  Claim C8.  For every integer \<open>n\<close>, \<open>apnumber n\<close> is the translator's rendering of the
  English word of \<open>n\<close> exactly when \<open>1 \<le> n \<le> 9\<close>, and the plain decimal text of \<open>n\<close> for
  every other integer, zero and the negative integers included.
\<close>

theorem apnumber_words:
  "apnumber tr (PyInt n) =
     Inr (PyStr (if 1 \<le> n \<and> n \<le> 9 then gettext tr (digit_word n) else str_int n))"
proof (cases "0 < n \<and> n < 10")
  case True
  then have "n \<in> {1, 2, 3, 4, 5, 6, 7, 8, 9}" by auto
  then show ?thesis
    by (auto simp: apnumber_def digit_word_def)
next
  case False
  then show ?thesis by (auto simp: apnumber_def)
qed

theorem apnumber_words_witness:
  "apnumber untranslated (PyInt 7) = Inr (PyStr ''seven'')
   \<and> apnumber untranslated (PyInt 0) = Inr (PyStr ''0'')
   \<and> apnumber untranslated (PyInt (-3)) = Inr (PyStr ''-3'')
   \<and> apnumber untranslated (PyInt 10) = Inr (PyStr ''10'')"
  using apnumber_words [of untranslated 7] apnumber_words [of untranslated 0]
    apnumber_words [of untranslated "-3"] apnumber_words [of untranslated 10]
  by (simp add: digit_word_def untranslated_def str_int_def str_nat.simps digit_char_def)

section \<open>Properties of \<^verbatim>\<open>intcomma\<close>\<close>

lemma intcomma_check_str_error:
  "intcomma_check (PyStr s) = Inl err \<Longrightarrow> err = ValueError"
  by (auto simp: intcomma_check_def split: option.splits)

lemma intcomma_fixed_point:
  assumes "comma_step s = s"
  shows "intcomma (PyStr s) = Inr (PyStr s)"
proof (cases "intcomma_check (PyStr s)")
  case (Inl err)
  then have "err = ValueError" by (rule intcomma_check_str_error)
  with Inl show ?thesis by (simp add: intcomma.simps [of "PyStr s"])
next
  case (Inr x)
  with assms show ?thesis by (simp add: intcomma.simps [of "PyStr s"] Let_def)
qed

lemma intcomma_returns:
  "intcomma v = Inr y \<Longrightarrow> intcomma y = Inr y"
proof (induction v rule: intcomma.induct)
  case (1 v)
  show ?case
  proof (cases "intcomma_check v")
    case (Inl err)
    with "1.prems" have "y = v"
      by (auto simp: intcomma.simps [of v] split: if_splits)
    with "1.prems" show ?thesis by simp
  next
    case (Inr x)
    show ?thesis
    proof (cases "py_str v = comma_step (py_str v)")
      case True
      with Inr "1.prems" have "y = PyStr (py_str v)"
        by (simp add: intcomma.simps [of v] Let_def)
      with True show ?thesis by (simp add: intcomma_fixed_point)
    next
      case False
      with Inr "1.prems" have "intcomma (PyStr (comma_step (py_str v))) = Inr y"
        by (simp add: intcomma.simps [of v] Let_def)
      with "1.IH" [OF Inr refl refl False] show ?thesis .
    qed
  qed
qed

text \<open>
  Claim C5.  \<open>intcomma\<close> is idempotent: applying it to its own result changes nothing,
  for every input.  The inner call may raise (an integer too large for \<^verbatim>\<open>float\<close>); the
  outer call is applied to what the inner one returns.
\<close>

theorem intcomma_idempotent:
  "(case intcomma x of Inl err \<Rightarrow> Inl err | Inr y \<Rightarrow> intcomma y) = intcomma x"
  by (cases "intcomma x") (simp_all add: intcomma_returns)

lemma takeWhile_digits_rest:
  "list_all is_digit ds \<Longrightarrow> rest = [] \<or> \<not> is_digit (hd rest) \<Longrightarrow> takeWhile is_digit (ds @ rest) = ds"
  by (induction ds) (auto simp: neq_Nil_conv takeWhile_eq_Nil_iff)

lemma dropWhile_digits_rest:
  "list_all is_digit ds \<Longrightarrow> rest = [] \<or> \<not> is_digit (hd rest) \<Longrightarrow> dropWhile is_digit (ds @ rest) = rest"
  by (induction ds) (auto simp: neq_Nil_conv dropWhile_eq_self_iff)

lemma comma_step_text:
  assumes "sign = [] \<or> sign = ''-''" "list_all is_digit ds" "ds \<noteq> []"
    and "rest = [] \<or> \<not> is_digit (hd rest)"
  shows "comma_step (sign @ ds @ rest) =
           (if 4 \<le> length ds
            then sign @ take (length ds - 3) ds @ CHR '','' # drop (length ds - 3) ds @ rest
            else sign @ ds @ rest)"
proof -
  have hd_ds: "hd ds \<noteq> CHR ''-''"
    using assms(2,3) by (cases ds) auto
  show ?thesis
  proof (cases "sign = []")
    case True
    with hd_ds assms show ?thesis
      by (simp add: comma_step_def Let_def takeWhile_digits_rest dropWhile_digits_rest hd_append)
  next
    case False
    with assms(1) have "sign = ''-''" by simp
    with assms show ?thesis
      by (simp add: comma_step_def Let_def takeWhile_digits_rest dropWhile_digits_rest)
  qed
qed

lemma filter_comma_digits:
  "list_all is_digit ds \<Longrightarrow> filter (\<lambda>c. c \<noteq> CHR '','') ds = ds"
  by (induction ds) auto

lemma intcomma_text:
  assumes "sign = [] \<or> sign = ''-''" "list_all is_digit ds" "ds \<noteq> []"
    and "rest = [] \<or> \<not> is_digit (hd rest)"
    and "parse_float (filter (\<lambda>c. c \<noteq> CHR '','') (sign @ ds @ rest)) = Some x"
  shows "intcomma (PyStr (sign @ ds @ rest)) = Inr (PyStr (sign @ group_thousands ds @ rest))"
  using assms
proof (induction "length ds" arbitrary: ds rest rule: less_induct)
  case less
  note step = comma_step_text [OF less.prems(1,2,3,4)]
  show ?case
  proof (cases "4 \<le> length ds")
    case False
    then have "group_thousands ds = ds"
      by (simp add: group_thousands.simps [of ds])
    with False step show ?thesis
      by (simp add: intcomma_fixed_point)
  next
    case True
    define lead where "lead = take (length ds - 3) ds"
    define last3 where "last3 = drop (length ds - 3) ds"
    have ds: "ds = lead @ last3"
      by (simp add: lead_def last3_def)
    have lead_digits: "list_all is_digit lead" "lead \<noteq> []" "length lead < length ds"
      using True less.prems(2) by (auto simp: lead_def list_all_iff dest: in_set_takeD)
    have last3_digits: "list_all is_digit last3"
      using less.prems(2) by (auto simp: last3_def list_all_iff dest: in_set_dropD)
    have parse: "parse_float (filter (\<lambda>c. c \<noteq> CHR '','') (sign @ lead @ (CHR '','' # last3 @ rest))) = Some x"
      using less.prems(5) ds by simp
    have IH: "intcomma (PyStr (sign @ lead @ (CHR '','' # last3 @ rest))) =
        Inr (PyStr (sign @ group_thousands lead @ (CHR '','' # last3 @ rest)))"
      by (rule less.hyps [OF lead_digits(3) less.prems(1) lead_digits(1,2) _ parse]) simp
    have new: "comma_step (sign @ ds @ rest) = sign @ lead @ (CHR '','' # last3 @ rest)"
      using True step by (simp add: lead_def last3_def)
    have len: "length ds = length lead + length last3"
      using True by (simp add: lead_def last3_def)
    have neq: "sign @ ds @ rest \<noteq> sign @ lead @ (CHR '','' # last3 @ rest)"
    proof
      assume "sign @ ds @ rest = sign @ lead @ (CHR '','' # last3 @ rest)"
      then have "length (sign @ ds @ rest) = length (sign @ lead @ (CHR '','' # last3 @ rest))"
        by (rule arg_cong)
      with len show False by simp
    qed
    have grp: "group_thousands ds = group_thousands lead @ CHR '','' # last3"
      using True by (simp add: group_thousands.simps [of ds] lead_def last3_def)
    have "intcomma (PyStr (sign @ ds @ rest)) = intcomma (PyStr (sign @ lead @ (CHR '','' # last3 @ rest)))"
      using less.prems(5) new neq
      by (simp add: intcomma.simps [of "PyStr (sign @ ds @ rest)"] intcomma_check_def Let_def)
    with IH grp show ?thesis by simp
  qed
qed

lemma intcomma_via_text:
  assumes "intcomma_check v = Inr x" "intcomma_check (PyStr (py_str v)) = Inr y"
  shows "intcomma v = intcomma (PyStr (py_str v))"
  using assms
  by (simp add: intcomma.simps [of v] intcomma.simps [of "PyStr (py_str v)"] Let_def)

lemma intcomma_sign_digits_rest:
  assumes "intcomma_check v = Inr x" and "intcomma_check (PyStr (py_str v)) = Inr y"
    and "py_str v = sign @ ds @ rest"
    and "sign = [] \<or> sign = ''-''" and "list_all is_digit ds" and "ds \<noteq> []"
    and "rest = [] \<or> \<not> is_digit (hd rest)"
  shows "intcomma v = Inr (PyStr (sign @ group_thousands ds @ rest))"
proof -
  from assms(2,3) obtain z
    where "parse_float (filter (\<lambda>c. c \<noteq> CHR '','') (sign @ ds @ rest)) = Some z"
    by (auto simp: intcomma_check_def split: option.splits)
  then have "intcomma (PyStr (sign @ ds @ rest)) = Inr (PyStr (sign @ group_thousands ds @ rest))"
    by (rule intcomma_text [OF assms(4,5,6,7)])
  with intcomma_via_text [OF assms(1,2)] assms(3) show ?thesis by simp
qed

lemma intcomma_decimal_example:
  "intcomma (PyStr ''1234567.5'') = Inr (PyStr ''1,234,567.5'')"
  using intcomma_sign_digits_rest [where v = "PyStr ''1234567.5''" and sign = "[]"
      and ds = "''1234567''" and rest = "''.5''"]
  by (simp add: intcomma_check_def round_eval parse_eval group_thousands.simps)

text \<open>The witness of claim C5: the inner call groups the digits, the outer call leaves
  the grouped text as it is.\<close>

theorem intcomma_idempotent_witness:
  "intcomma (PyStr ''1,234,567.5'') = Inr (PyStr ''1,234,567.5'')"
  using intcomma_idempotent [of "PyStr ''1234567.5''"]
  by (simp add: intcomma_decimal_example)




section \<open>Properties of \<^verbatim>\<open>intword\<close>\<close>

lemmas intword_eval =
  intword_def powers_def human_powers_def gettext_noop_def int_over_float_def
  rounds_to_thousand_def untranslated_def

lemma intword_below_million:
  "n < 10 ^ 6 \<Longrightarrow> intword tr (PyInt n) prec = Inr (PyStr (str_int n))"
  by (simp add: intword_def powers_def)

lemma intword_loop_falls_through:
  "list_all (\<lambda>i. powers ! i \<le> v) idxs \<Longrightarrow> intword_loop tr prec v idxs = Inr (PyStr (str_int v))"
  by (induction idxs) simp_all

lemma powers_upto_googol:
  "list_all (\<lambda>i. powers ! i \<le> 10 ^ 100) [0, 1, 2, 3, 4, 5, 6, 7, 8, 9, 10]"
  by (simp add: powers_def)

lemma intword_from_googol:
  assumes "10 ^ 100 \<le> n"
  shows "intword tr (PyInt n) prec = Inr (PyStr (str_int n))"
proof -
  have all: "list_all (\<lambda>i. powers ! i \<le> n) [0, 1, 2, 3, 4, 5, 6, 7, 8, 9, 10]"
    using powers_upto_googol assms unfolding list_all_iff by (meson order_trans)
  then have "\<not> n < powers ! 0" by simp
  moreover from all have "list_all (\<lambda>i. powers ! i \<le> n) [1, 2, 3, 4, 5, 6, 7, 8, 9, 10]"
    by simp
  ultimately show ?thesis
    by (simp add: intword_def intword_loop_falls_through del: intword_loop.simps)
qed

lemma intword_million_example:
  "intword untranslated (PyInt 1000000) 1 = Inr (PyStr ''1.0 million'')"
  by (simp add: intword_eval round_eval parse_eval text_eval format_eval)

lemma intword_billion_example:
  "intword untranslated (PyInt 1200000000) 1 = Inr (PyStr ''1.2 billion'')"
  by (simp add: intword_eval round_eval parse_eval text_eval format_eval)

text \<open>
  Claim C7.  For every integer below one million, and for every integer from \<open>10^100\<close> on,
  \<open>intword\<close> returns the plain decimal text of the integer, whatever the precision of the
  format and the translator; and with the default format \<^verbatim>\<open>"%.1f"\<close>,
  \<open>intword 1000000\<close> is \<^verbatim>\<open>1.0 million\<close> and \<open>intword 1200000000\<close> is \<^verbatim>\<open>1.2 billion\<close>.
\<close>

theorem intword_plain_outside_range:
  "(n < 10 ^ 6 \<or> 10 ^ 100 \<le> n \<longrightarrow> intword tr (PyInt n) prec = Inr (PyStr (str_int n)))
   \<and> intword untranslated (PyInt 1000000) 1 = Inr (PyStr ''1.0 million'')
   \<and> intword untranslated (PyInt 1200000000) 1 = Inr (PyStr ''1.2 billion'')"
  using intword_below_million intword_from_googol intword_million_example intword_billion_example
  by blast

theorem intword_plain_outside_range_witness:
  "intword untranslated (PyInt 999999) 1 = Inr (PyStr ''999999'')
   \<and> intword untranslated (PyInt (- 5)) 1 = Inr (PyStr ''-5'')
   \<and> intword untranslated (PyInt (10 ^ 100)) 1 = Inr (PyStr (str_int (10 ^ 100)))"
proof -
  have "intword untranslated (PyInt 999999) 1 = Inr (PyStr ''999999'')"
    using intword_plain_outside_range [of 999999 untranslated 1] by (simp add: text_eval)
  moreover have "intword untranslated (PyInt (- 5)) 1 = Inr (PyStr ''-5'')"
    using intword_plain_outside_range [of "- 5" untranslated 1] by (simp add: text_eval)
  moreover have "intword untranslated (PyInt (10 ^ 100)) 1 = Inr (PyStr (str_int (10 ^ 100)))"
    using intword_plain_outside_range [of "10 ^ 100" untranslated 1] by simp
  ultimately show ?thesis by blast
qed


end
